theory Spec2Isabelle
  imports Complex_Main "HOL-Library.Word"
begin

section \<open>JavaScript values used by the video routes\<close>

text \<open>
  A JavaScript number that the handlers compare and clamp is modelled as \<open>int option\<close>:
  \<open>Some n\<close> is the finite integer \<open>n\<close>, \<open>None\<close> is every value for which
  \<^verbatim>\<open>Number.isFinite\<close> is false (\<^verbatim>\<open>NaN\<close>, \<^verbatim>\<open>undefined\<close>, an infinity).
  Integers are exact here; the rounding of IEEE doubles beyond \<open>2^53\<close> is not modelled.
\<close>

type_synonym jsnum = "int option"

type_synonym byte = "8 word"

definition isWhiteSpace :: "char \<Rightarrow> bool" where
  "isWhiteSpace c = (c \<in> set [CHR 0x09, CHR 0x0A, CHR 0x0B, CHR 0x0C, CHR 0x0D, CHR 0x20])"

definition isDigit :: "char \<Rightarrow> bool" where
  "isDigit c = (48 \<le> (of_char c :: nat) \<and> (of_char c :: nat) \<le> 57)"

definition digitVal :: "char \<Rightarrow> nat" where
  "digitVal c = (of_char c :: nat) - 48"

text \<open>
  \<^verbatim>\<open>parseInt(s, 10)\<close> of ECMAScript: leading white space is skipped (the ASCII white
  space characters; a string is a list of bytes here), one sign is read, then the longest
  run of decimal digits; no digit gives \<^verbatim>\<open>NaN\<close>.
\<close>

definition parseInt :: "string \<Rightarrow> jsnum" where
  "parseInt s =
     (let t = dropWhile isWhiteSpace s;
          neg = (t \<noteq> [] \<and> hd t = CHR ''-'');
          u = (if t \<noteq> [] \<and> (hd t = CHR ''-'' \<or> hd t = CHR ''+'') then tl t else t);
          z = takeWhile isDigit u
      in if z = [] then None
         else Some ((if neg then - 1 else 1) * int (foldl (\<lambda>n c. 10 * n + digitVal c) 0 z)))"

text \<open>A query parameter or array element that is absent is \<^verbatim>\<open>undefined\<close>, which
  \<^verbatim>\<open>parseInt\<close> turns into the string ``undefined'' first.\<close>

definition parseIntArg :: "string option \<Rightarrow> jsnum" where
  "parseIntArg q = (case q of None \<Rightarrow> parseInt ''undefined'' | Some s \<Rightarrow> parseInt s)"

definition digitChar :: "nat \<Rightarrow> char" where
  "digitChar d = char_of (48 + d)"

fun showNat :: "nat \<Rightarrow> string" where
  "showNat n = (if n < 10 then [digitChar n] else showNat (n div 10) @ [digitChar (n mod 10)])"

declare showNat.simps [simp del]

text \<open>\<^verbatim>\<open>String(n)\<close> for an integer, as a template literal renders it.\<close>

definition showInt :: "int \<Rightarrow> string" where
  "showInt i = (if i < 0 then CHR ''-'' # showNat (nat (- i)) else showNat (nat i))"

text \<open>\<^verbatim>\<open>s.split(c)\<close> for a one-character separator.\<close>

fun splitOn :: "char \<Rightarrow> string \<Rightarrow> string list" where
  "splitOn c [] = [[]]"
| "splitOn c (x # xs) =
     (if x = c then [] # splitOn c xs
      else (case splitOn c xs of [] \<Rightarrow> [[x]] | p # ps \<Rightarrow> (x # p) # ps))"

definition startsWith :: "string \<Rightarrow> string \<Rightarrow> bool" where
  "startsWith s p = (take (length p) s = p)"

text \<open>\<^verbatim>\<open>s.replace(/pat/, "")\<close> for a literal pattern: the first occurrence is removed.\<close>

fun removeFirst :: "string \<Rightarrow> string \<Rightarrow> string" where
  "removeFirst pat [] = []"
| "removeFirst pat (x # xs) =
     (if startsWith (x # xs) pat then drop (length pat) (x # xs) else x # removeFirst pat xs)"

text \<open>\<^verbatim>\<open>parts[i]\<close>: \<^verbatim>\<open>undefined\<close> beyond the end of the array.\<close>

definition element :: "'a list \<Rightarrow> nat \<Rightarrow> 'a option" where
  "element xs i = (if i < length xs then Some (xs ! i) else None)"

text \<open>Truthiness of a value that is a string or \<^verbatim>\<open>undefined\<close>.\<close>

definition truthy :: "string option \<Rightarrow> bool" where
  "truthy v = (case v of None \<Rightarrow> False | Some s \<Rightarrow> s \<noteq> [])"


section \<open>Errors (utils/errors.js) and the error middleware\<close>

datatype app_error = AppError string nat string  \<comment> \<open>message, statusCode, code\<close>

definition notFound :: "string \<Rightarrow> app_error" where
  "notFound resource = AppError (resource @ '' not found'') 404 ''NOT_FOUND''"

definition courseNotPurchased :: app_error where
  "courseNotPurchased =
     AppError ''You have not purchased this course'' 403 ''COURSE_NOT_PURCHASED''"


section \<open>Collaborators: persistence, token verification, file storage\<close>

record user =
  u_id :: string

record course =
  c_id :: string
  c_courseId :: string
  c_creator :: string

record video =
  v_id :: string
  v_videoId :: string
  v_title :: string
  v_duration :: int
  v_mimeType :: "string option"
  v_filename :: string
  v_course :: course   \<comment> \<open>populated by \<^verbatim>\<open>.populate("course")\<close>\<close>

text \<open>
  The backend a request runs against: the three collections the handlers query, the
  verification of a token (\<open>None\<close> when \<^verbatim>\<open>jwt.verify\<close> throws, else the decoded
  id), and the stored files by path.
\<close>

record backend =
  users :: "user list"
  videos :: "video list"
  purchases :: "(string \<times> string) list"   \<comment> \<open>(user, course) of each Purchase\<close>
  jwtVerify :: "string \<Rightarrow> string option"
  dataDir :: string
  files :: "string \<Rightarrow> byte list option"

record request =
  authorization :: "string option"   \<comment> \<open>\<^verbatim>\<open>req.headers.authorization\<close>\<close>
  header_range :: "string option"    \<comment> \<open>\<^verbatim>\<open>req.headers.range\<close>\<close>
  query_token :: "string option"
  query_start :: "string option"
  query_end :: "string option"
  param_videoId :: string

definition findUserById :: "backend \<Rightarrow> string \<Rightarrow> user option" where
  "findUserById b i = find (\<lambda>u. u_id u = i) (users b)"

definition findVideo :: "backend \<Rightarrow> string \<Rightarrow> video option" where
  "findVideo b ident = find (\<lambda>v. v_id v = ident \<or> v_videoId v = ident) (videos b)"

definition findPurchase :: "backend \<Rightarrow> string \<Rightarrow> string \<Rightarrow> (string \<times> string) option" where
  "findPurchase b uid cid = find (\<lambda>p. p = (uid, cid)) (purchases b)"

text \<open>\<^verbatim>\<open>path.join\<close> of three segments (without the normalisation of dots).\<close>

definition pathJoin3 :: "string \<Rightarrow> string \<Rightarrow> string \<Rightarrow> string" where
  "pathJoin3 a b c = a @ ''/'' @ b @ ''/'' @ c"


section \<open>middleware/auth.js: protect\<close>

text \<open>Lines 10 to 23: the token of the \<^verbatim>\<open>Authorization\<close> header, else of the query.\<close>

definition bearerToken :: "request \<Rightarrow> string option" where
  "bearerToken req =
     (let token0 =
            (case authorization req of
               Some a \<Rightarrow> (if a \<noteq> [] \<and> startsWith a ''Bearer''
                          then element (splitOn CHR '' '' a) 1 else None)
             | None \<Rightarrow> None)
      in if \<not> truthy token0 \<and> truthy (query_token req) then query_token req else token0)"

definition protect :: "backend \<Rightarrow> request \<Rightarrow> app_error + user" where
  "protect b req =
     (let token = bearerToken req
      in if \<not> truthy token
         then Inl (AppError ''Not authorized, no token provided'' 401 ''UNAUTHORIZED'')
         else (case jwtVerify b (the token) of
                 None \<Rightarrow> Inl (AppError ''Not authorized, invalid token'' 401 ''UNAUTHORIZED'')
               | Some decoded_id \<Rightarrow>
                   (case findUserById b decoded_id of
                      None \<Rightarrow> Inl (AppError ''User not found'' 401 ''UNAUTHORIZED'')
                    | Some u \<Rightarrow> Inr u)))"


section \<open>controllers/videoController.js\<close>

definition DEFAULT_CHUNK_SIZE :: int where
  "DEFAULT_CHUNK_SIZE = 5 * 1024 * 1024"

definition DEFAULT_MIME_TYPE :: string where
  "DEFAULT_MIME_TYPE = ''video/mp4''"

record resource =
  r_video :: video
  r_course :: course
  r_filePath :: string
  r_fileSize :: int

definition resolveVideoResource :: "backend \<Rightarrow> string \<Rightarrow> user \<Rightarrow> app_error + resource" where
  "resolveVideoResource b videoIdentifier usr =
     (case findVideo b videoIdentifier of
        None \<Rightarrow> Inl (notFound ''Video'')
      | Some v \<Rightarrow>
          (let crs = v_course v;
               isCreator = (c_creator crs = u_id usr)
           in if \<not> isCreator \<and> findPurchase b (u_id usr) (c_id crs) = None
              then Inl courseNotPurchased
              else (let filePath = pathJoin3 (dataDir b) (c_courseId crs) (v_filename v)
                    in case files b filePath of
                         None \<Rightarrow> Inl (notFound ''Video file'')
                       | Some content \<Rightarrow>
                           Inr \<lparr> r_video = v, r_course = crs, r_filePath = filePath,
                                 r_fileSize = int (length content) \<rparr>)))"

datatype hvalue = Str string | Num int

record metadata =
  m_id :: string
  m_videoId :: string
  m_title :: string
  m_duration :: int
  m_size :: int
  m_mimeType :: string
  m_filename :: string

datatype payload =
    FileBytes "byte list"          \<comment> \<open>the bytes the read stream pipes into the response\<close>
  | MetadataJson metadata
  | ErrorJson string string        \<comment> \<open>code, message\<close>
  | ReadStreamThrew string         \<comment> \<open>\<^verbatim>\<open>fs.createReadStream\<close> threw, after the head was written\<close>

record response =
  status :: nat
  headers :: "(string \<times> hvalue) list"
  payload :: payload

text \<open>
  \<^verbatim>\<open>fs.createReadStream(path, { start, end })\<close> of Node: both bounds are inclusive and
  must be non-negative integers with \<open>start \<le> end\<close>, else the constructor throws
  \<^verbatim>\<open>ERR_OUT_OF_RANGE\<close>; a window that passes the end of the file is cut there.
\<close>

definition createReadStream :: "backend \<Rightarrow> string \<Rightarrow> (int \<times> int) option \<Rightarrow> payload" where
  "createReadStream b filePath opts =
     (case opts of
        None \<Rightarrow> (case files b filePath of
                   None \<Rightarrow> ReadStreamThrew ''ENOENT''
                 | Some content \<Rightarrow> FileBytes content)
      | Some (start, end) \<Rightarrow>
          (if start < 0 \<or> end < 0 \<or> start > end then ReadStreamThrew ''ERR_OUT_OF_RANGE''
           else (case files b filePath of
                   None \<Rightarrow> ReadStreamThrew ''ENOENT''
                 | Some content \<Rightarrow>
                     FileBytes (take (nat (end - start + 1)) (drop (nat start) content)))))"

definition mimeOf :: "video \<Rightarrow> string" where
  "mimeOf v = (if truthy (v_mimeType v) then the (v_mimeType v) else DEFAULT_MIME_TYPE)"

text \<open>\<^verbatim>\<open>streamVideoSegment\<close>, lines 352 to 365: the window that is served.\<close>

definition segmentWindow :: "int \<Rightarrow> jsnum \<Rightarrow> jsnum \<Rightarrow> int \<times> int" where
  "segmentWindow fileSize qstart qend =
     (let start = (case qstart of Some s \<Rightarrow> (if s \<ge> 0 then s else 0) | None \<Rightarrow> 0);
          end = (case qend of
                   None \<Rightarrow> min (start + DEFAULT_CHUNK_SIZE - 1) (fileSize - 1)
                 | Some e \<Rightarrow> (if e < start then min (start + DEFAULT_CHUNK_SIZE - 1) (fileSize - 1)
                             else min e (fileSize - 1)))
      in if start \<ge> fileSize then (max 0 (fileSize - DEFAULT_CHUNK_SIZE), fileSize - 1)
         else (start, end))"

definition partialHead :: "video \<Rightarrow> int \<Rightarrow> int \<Rightarrow> int \<Rightarrow> (string \<times> hvalue) list" where
  "partialHead v fileSize start end =
     [(''Content-Range'', Str (''bytes '' @ showInt start @ ''-'' @ showInt end @ ''/'' @ showInt fileSize)),
      (''Accept-Ranges'', Str ''bytes''),
      (''Content-Length'', Num (end - start + 1)),
      (''Content-Type'', Str (mimeOf v)),
      (''Cache-Control'', Str ''no-store'')]"

definition streamVideoSegment :: "backend \<Rightarrow> request \<Rightarrow> user \<Rightarrow> app_error + response" where
  "streamVideoSegment b req usr =
     (case resolveVideoResource b (param_videoId req) usr of
        Inl e \<Rightarrow> Inl e
      | Inr r \<Rightarrow>
          (let (start, end) = segmentWindow (r_fileSize r)
                                (parseIntArg (query_start req)) (parseIntArg (query_end req))
           in Inr \<lparr> status = 206,
                    headers = partialHead (r_video r) (r_fileSize r) start end,
                    payload = createReadStream b (r_filePath r) (Some (start, end)) \<rparr>))"

text \<open>\<^verbatim>\<open>streamVideo\<close>, lines 309 to 318: the range header is cut at the dashes, and the
  window has the same two normalisation steps as the segment handler, and no third one.\<close>

definition streamWindow :: "int \<Rightarrow> jsnum \<Rightarrow> jsnum \<Rightarrow> int \<times> int" where
  "streamWindow fileSize rstart rend =
     (let start = (case rstart of Some s \<Rightarrow> (if s \<ge> 0 then s else 0) | None \<Rightarrow> 0);
          end = (case rend of
                   None \<Rightarrow> min (start + DEFAULT_CHUNK_SIZE - 1) (fileSize - 1)
                 | Some e \<Rightarrow> (if e < start then min (start + DEFAULT_CHUNK_SIZE - 1) (fileSize - 1)
                             else min e (fileSize - 1)))
      in (start, end))"

definition rangeBounds :: "string \<Rightarrow> jsnum \<times> jsnum" where
  "rangeBounds rng =
     (let parts = splitOn CHR ''-'' (removeFirst ''bytes='' rng);
          start = parseIntArg (element parts 0);
          end = (if truthy (element parts 1) then parseIntArg (element parts 1) else None)
      in (start, end))"

definition streamVideo :: "backend \<Rightarrow> request \<Rightarrow> user \<Rightarrow> app_error + response" where
  "streamVideo b req usr =
     (case resolveVideoResource b (param_videoId req) usr of
        Inl e \<Rightarrow> Inl e
      | Inr r \<Rightarrow>
          (if truthy (header_range req)
           then (let (rstart, rend) = rangeBounds (the (header_range req));
                     (start, end) = streamWindow (r_fileSize r) rstart rend
                 in Inr \<lparr> status = 206,
                          headers = partialHead (r_video r) (r_fileSize r) start end,
                          payload = createReadStream b (r_filePath r) (Some (start, end)) \<rparr>)
           else Inr \<lparr> status = 200,
                      headers = [(''Content-Length'', Num (r_fileSize r)),
                                 (''Content-Type'', Str (mimeOf (r_video r))),
                                 (''Accept-Ranges'', Str ''bytes''),
                                 (''Cache-Control'', Str ''no-store'')],
                      payload = createReadStream b (r_filePath r) None \<rparr>))"

definition getVideoMetadata :: "backend \<Rightarrow> request \<Rightarrow> user \<Rightarrow> app_error + response" where
  "getVideoMetadata b req usr =
     (case resolveVideoResource b (param_videoId req) usr of
        Inl e \<Rightarrow> Inl e
      | Inr r \<Rightarrow>
          Inr \<lparr> status = 200, headers = [],
                payload = MetadataJson
                  \<lparr> m_id = v_id (r_video r), m_videoId = v_videoId (r_video r),
                    m_title = v_title (r_video r), m_duration = v_duration (r_video r),
                    m_size = r_fileSize r, m_mimeType = mimeOf (r_video r),
                    m_filename = v_filename (r_video r) \<rparr> \<rparr>)"


section \<open>The routes: protect, the handler, the error middleware\<close>

text \<open>The error middleware answers an \<^verbatim>\<open>AppError\<close> with its status code (500 when it is
  0) and a JSON body of its code and message.\<close>

definition errorHandler :: "app_error \<Rightarrow> response" where
  "errorHandler err =
     (case err of AppError message statusCode code \<Rightarrow>
        \<lparr> status = (if statusCode \<noteq> 0 then statusCode else 500), headers = [],
          payload = ErrorJson (if code \<noteq> [] then code else ''SERVER_ERROR'')
                              (if message \<noteq> [] then message else ''Server Error'') \<rparr>)"

datatype endpoint = Stream | Segments | Metadata

definition handlerOf :: "endpoint \<Rightarrow> backend \<Rightarrow> request \<Rightarrow> user \<Rightarrow> app_error + response" where
  "handlerOf ep = (case ep of Stream \<Rightarrow> streamVideo | Segments \<Rightarrow> streamVideoSegment
                     | Metadata \<Rightarrow> getVideoMetadata)"

text \<open>\<^verbatim>\<open>router.use(protect)\<close>, then the handler under \<^verbatim>\<open>asyncHandler\<close>; whatever either
  passes to \<^verbatim>\<open>next\<close> reaches the error middleware.\<close>

definition serve :: "endpoint \<Rightarrow> backend \<Rightarrow> request \<Rightarrow> response" where
  "serve ep b req =
     (case protect b req of
        Inl e \<Rightarrow> errorHandler e
      | Inr usr \<Rightarrow> (case handlerOf ep b req usr of Inl e \<Rightarrow> errorHandler e | Inr r \<Rightarrow> r))"

definition header :: "response \<Rightarrow> string \<Rightarrow> hvalue option" where
  "header r name = map_of (headers r) name"




section \<open>services/api.ts: the segment request\<close>

text \<open>What the player puts on the network or asks of the media buffer.\<close>

datatype effect =
    FetchSegment string int int   \<comment> \<open>video, \<^verbatim>\<open>start\<close> and \<^verbatim>\<open>end\<close> of the segment URL\<close>
  | AppendBuffer
  | AbortBuffer
  | RemoveBuffer
  | EndOfStream

text \<open>\<^verbatim>\<open>getSegmentUrl\<close> writes \<^verbatim>\<open>Math.max(0, start)\<close> and \<^verbatim>\<open>Math.max(start, end)\<close>
  into the query.\<close>

definition getSegmentUrl :: "string \<Rightarrow> int \<Rightarrow> int \<Rightarrow> effect" where
  "getSegmentUrl videoId start end = FetchSegment videoId (max 0 start) (max start end)"


section \<open>pages/user/CoursePlayerPage.tsx: the stream controller\<close>

definition STREAM_CHUNK_SIZE :: int where
  "STREAM_CHUNK_SIZE = 2 * 1024 * 1024"

datatype ready_state = Closed | Open | Ended

text \<open>
  A call of \<^verbatim>\<open>appendNextChunk\<close> that is suspended at its \<^verbatim>\<open>await\<close>: the locals it
  resumes with. \<open>f_currentVideoId\<close> is the \<^verbatim>\<open>currentVideoId\<close> its closure was built
  with, the value \<open>f_activeVideoId\<close> was copied from.
\<close>

record fetch =
  f_activeVideoId :: string
  f_currentVideoId :: string
  f_start :: int
  f_end :: int

text \<open>
  The refs and the state of the component that the controller reads and writes.
  \<open>sourceBufferRef\<close> holds the buffer's \<^verbatim>\<open>updating\<close> flag, \<open>mediaSourceRef\<close> the
  media source's \<^verbatim>\<open>readyState\<close>; \<open>None\<close> is a ref that is \<^verbatim>\<open>null\<close>. Times are
  exact rationals (the rounding of doubles is not modelled). \<open>inflight\<close> lists the
  suspended calls whose request is still on the network.
\<close>

record session =
  useMediaSource :: bool
  currentVideoId :: "string option"
  duration :: rat
  videoRef :: bool
  mediaSourceRef :: "ready_state option"
  sourceBufferRef :: "bool option"
  fileSizeRef :: int
  chunkPointerRef :: int
  isFetchingChunkRef :: bool
  pendingSeekByteRef :: "int option"
  isClearingBufferRef :: bool
  hasStartedPlaybackRef :: bool
  isVideoLoading :: bool
  videoError :: "string option"
  inflight :: "fetch list"

text \<open>\<^verbatim>\<open>mediaSource.endOfStream()\<close> inside \<^verbatim>\<open>try\<close>: the call throws while the
  buffer is updating, and the handler only logs that.\<close>

definition endOfStream :: "session \<Rightarrow> session \<times> effect list" where
  "endOfStream s =
     (if sourceBufferRef s = Some True then (s, [])
      else (s\<lparr> mediaSourceRef := Some Ended \<rparr>, [EndOfStream]))"

text \<open>\<^verbatim>\<open>appendNextChunk\<close> up to its \<^verbatim>\<open>await\<close> (lines 154 to 177).\<close>

definition appendNextChunk :: "session \<Rightarrow> session \<times> effect list" where
  "appendNextChunk s =
     (if \<not> useMediaSource s then (s, [])
      else if \<not> truthy (currentVideoId s) then (s, [])
      else if sourceBufferRef s = None \<or> mediaSourceRef s = None then (s, [])
      else if isFetchingChunkRef s \<or> sourceBufferRef s = Some True then (s, [])
      else if fileSizeRef s = 0 then (s, [])
      else if chunkPointerRef s \<ge> fileSizeRef s
      then (if mediaSourceRef s = Some Open then endOfStream s else (s, []))
      else (let activeVideoId = the (currentVideoId s);
                start = chunkPointerRef s;
                end = min (start + STREAM_CHUNK_SIZE - 1) (fileSizeRef s - 1)
            in (s\<lparr> isFetchingChunkRef := True,
                     inflight := inflight s @
                       [\<lparr> f_activeVideoId = activeVideoId, f_currentVideoId = activeVideoId,
                          f_start = start, f_end = end \<rparr>] \<rparr>,
                [getSegmentUrl activeVideoId start end])))"

definition fetchFailed :: "session \<Rightarrow> session" where
  "fetchFailed s =
     s\<lparr> videoError := Some ''Failed to fetch video fragment. Please try again.'',
        isVideoLoading := False \<rparr>"

text \<open>
  \<^verbatim>\<open>appendNextChunk\<close> from its \<^verbatim>\<open>await\<close> on (lines 177 to 196), when the request
  of the suspended call \<open>f\<close> settles: \<open>ok\<close> says that \<^verbatim>\<open>fetchSegment\<close> returned the
  bytes rather than threw. \<^verbatim>\<open>appendBuffer\<close> throws while the buffer is updating. The
  \<^verbatim>\<open>finally\<close> block resets the fetching flag on every path.
\<close>

definition resumeAppend :: "fetch \<Rightarrow> bool \<Rightarrow> session \<Rightarrow> session \<times> effect list" where
  "resumeAppend f ok s0 =
     (let s = s0\<lparr> inflight := remove1 f (inflight s0) \<rparr>
      in if \<not> ok then ((fetchFailed s)\<lparr> isFetchingChunkRef := False \<rparr>, [])
         else if sourceBufferRef s = None then (s\<lparr> isFetchingChunkRef := False \<rparr>, [])
         else if f_activeVideoId f \<noteq> f_currentVideoId f
         then (s\<lparr> isFetchingChunkRef := False \<rparr>, [])
         else if sourceBufferRef s = Some True
         then ((fetchFailed s)\<lparr> isFetchingChunkRef := False \<rparr>, [])
         else (s\<lparr> sourceBufferRef := Some True,
                  chunkPointerRef := f_end f + 1,
                  hasStartedPlaybackRef := True,
                  isVideoLoading := (if hasStartedPlaybackRef s then isVideoLoading s else False),
                  isFetchingChunkRef := False \<rparr>,
               [AppendBuffer]))"

text \<open>\<^verbatim>\<open>handleSourceBufferUpdateEnd\<close> (lines 199 to 223).\<close>

definition handleSourceBufferUpdateEnd :: "session \<Rightarrow> session \<times> effect list" where
  "handleSourceBufferUpdateEnd s =
     (if \<not> useMediaSource s then (s, [])
      else if isClearingBufferRef s
      then (let s1 = s\<lparr> isClearingBufferRef := False \<rparr>;
                s2 = (case pendingSeekByteRef s1 of
                        Some b \<Rightarrow> s1\<lparr> chunkPointerRef := b, pendingSeekByteRef := None \<rparr>
                      | None \<Rightarrow> s1)
            in appendNextChunk s2)
      else if chunkPointerRef s \<ge> fileSizeRef s
      then (if mediaSourceRef s = Some Open then endOfStream s else (s, []))
      else appendNextChunk s)"

text \<open>
  \<^verbatim>\<open>clearSourceBufferForSeek\<close> (lines 225 to 236). \<^verbatim>\<open>abort()\<close> throws unless the media
  source is open; whether \<^verbatim>\<open>remove(0, removeEnd)\<close> throws is the browser's answer
  \<open>removeThrows\<close> (it does while the media source has no duration yet). A removal
  that starts leaves the buffer updating until its \<^verbatim>\<open>updateend\<close>.
\<close>

definition clearSourceBufferForSeek :: "bool \<Rightarrow> session \<Rightarrow> session \<times> effect list" where
  "clearSourceBufferForSeek removeThrows s0 =
     (if \<not> useMediaSource s0 then (s0, [])
      else if sourceBufferRef s0 = None \<or> mediaSourceRef s0 = None then (s0, [])
      else (let s = s0\<lparr> isClearingBufferRef := True \<rparr>
            in if mediaSourceRef s = Some Open
               then (if removeThrows
                     then (s\<lparr> sourceBufferRef := Some False, isClearingBufferRef := False \<rparr>,
                           [AbortBuffer])
                     else (s\<lparr> sourceBufferRef := Some True \<rparr>, [AbortBuffer, RemoveBuffer]))
               else (s\<lparr> isClearingBufferRef := False \<rparr>, [])))"

text \<open>\<^verbatim>\<open>handleFragmentedSeek\<close> (lines 238 to 249); \<open>currentTime\<close> is the time the
  video element was moved to.\<close>

definition handleFragmentedSeek :: "rat \<Rightarrow> bool \<Rightarrow> session \<Rightarrow> session \<times> effect list" where
  "handleFragmentedSeek currentTime removeThrows s =
     (if \<not> useMediaSource s then (s, [])
      else if \<not> videoRef s then (s, [])
      else if duration s \<le> 0 \<or> fileSizeRef s = 0 then (s, [])
      else (let ratio = currentTime / duration s;
                targetByte = min (fileSizeRef s - 1)
                                 (max 0 (floor (of_int (fileSizeRef s) * ratio)))
            in clearSourceBufferForSeek removeThrows
                 (s\<lparr> pendingSeekByteRef := Some targetByte,
                     hasStartedPlaybackRef := False,
                     isVideoLoading := True \<rparr>)))"

text \<open>\<^verbatim>\<open>cleanupMediaSource\<close> (lines 102 to 152): the refs after it.\<close>

definition cleanupMediaSource :: "session \<Rightarrow> session" where
  "cleanupMediaSource s =
     s\<lparr> sourceBufferRef := None, mediaSourceRef := None, fileSizeRef := 0,
        chunkPointerRef := 0, pendingSeekByteRef := None, isClearingBufferRef := False,
        isFetchingChunkRef := False, hasStartedPlaybackRef := False \<rparr>"

text \<open>
  \<^verbatim>\<open>initializeStream\<close> (lines 432 to 510) on the path that keeps the media source:
  the metadata arrived with the size \<open>fileSize\<close> and the duration \<open>dur\<close>, the
  type is supported, and the new media source waits for \<^verbatim>\<open>sourceopen\<close>.
\<close>

definition initializeStream :: "int \<Rightarrow> rat \<Rightarrow> session \<Rightarrow> session" where
  "initializeStream fileSize dur s0 =
     (let s = (cleanupMediaSource s0)\<lparr> videoError := None, isVideoLoading := True \<rparr>
      in s\<lparr> fileSizeRef := fileSize, duration := dur, mediaSourceRef := Some Closed \<rparr>)"

text \<open>
  A change of the current video: the clean-up of the stream effect (lines 522 to 525),
  then \<^verbatim>\<open>initializeStream\<close> for the new video. The refs are those of the component and
  are shared by both sessions; a request that is on the network stays there, no abort
  signal being given to \<^verbatim>\<open>fetch\<close>.
\<close>

definition changeVideo :: "string \<Rightarrow> int \<Rightarrow> rat \<Rightarrow> session \<Rightarrow> session" where
  "changeVideo videoId fileSize dur s =
     initializeStream fileSize dur ((cleanupMediaSource s)\<lparr> currentVideoId := Some videoId \<rparr>)"

text \<open>\<^verbatim>\<open>handleSourceOpen\<close> (lines 484 to 505), when \<^verbatim>\<open>addSourceBuffer\<close> succeeds.\<close>

definition handleSourceOpen :: "session \<Rightarrow> session \<times> effect list" where
  "handleSourceOpen s =
     (if mediaSourceRef s = Some Open
      then appendNextChunk
             (s\<lparr> sourceBufferRef := Some False, chunkPointerRef := 0,
                 pendingSeekByteRef := None \<rparr>)
      else (s, []))"

text \<open>
  The events of one playback session, between \<^verbatim>\<open>initializeStream\<close> and the next
  clean-up: the media source opens, a request settles, the buffer fires \<^verbatim>\<open>updateend\<close>,
  the video element is moved to a new time. \<^verbatim>\<open>updateend\<close> carries the buffer's
  \<^verbatim>\<open>updating\<close> flag at that moment: false when an append or a removal has finished,
  true when \<^verbatim>\<open>abort()\<close> queued the event and a removal has started since.
\<close>

datatype event =
    SourceOpen
  | FetchSettled fetch bool
  | UpdateEnd bool
  | Seeking rat bool

definition step :: "event \<Rightarrow> session \<Rightarrow> session \<times> effect list" where
  "step ev s =
     (case ev of
        SourceOpen \<Rightarrow>
          (if mediaSourceRef s = Some Closed
           then handleSourceOpen (s\<lparr> mediaSourceRef := Some Open \<rparr>) else (s, []))
      | FetchSettled f ok \<Rightarrow> (if f \<in> set (inflight s) then resumeAppend f ok s else (s, []))
      | UpdateEnd updating \<Rightarrow>
          (if sourceBufferRef s = None then (s, [])
           else handleSourceBufferUpdateEnd (s\<lparr> sourceBufferRef := Some updating \<rparr>))
      | Seeking t removeThrows \<Rightarrow> handleFragmentedSeek t removeThrows s)"

fun run :: "event list \<Rightarrow> session \<Rightarrow> session \<times> effect list" where
  "run [] s = (s, [])"
| "run (ev # evs) s =
     (let (s1, out1) = step ev s; (s2, out2) = run evs s1 in (s2, out1 @ out2))"

text \<open>
  Playback without seeks: as long as a request is on the network it settles with the
  bytes, and the buffer then finishes the append. The fuel bounds the number of rounds.
\<close>

fun playThrough :: "nat \<Rightarrow> session \<Rightarrow> session \<times> effect list" where
  "playThrough 0 s = (s, [])"
| "playThrough (Suc n) s =
     (case inflight s of
        [] \<Rightarrow> (s, [])
      | f # _ \<Rightarrow>
          (let (s1, out1) = step (FetchSettled f True) s;
               (s2, out2) = step (UpdateEnd False) s1;
               (s3, out3) = playThrough n s2
           in (s3, out1 @ out2 @ out3)))"

definition idle :: session where
  "idle = \<lparr> useMediaSource = True, currentVideoId = None, duration = 0, videoRef = True,
            mediaSourceRef = None, sourceBufferRef = None, fileSizeRef = 0,
            chunkPointerRef = 0, isFetchingChunkRef = False, pendingSeekByteRef = None,
            isClearingBufferRef = False, hasStartedPlaybackRef = False,
            isVideoLoading = True, videoError = None, inflight = [] \<rparr>"

text \<open>The session of a video once its metadata has arrived.\<close>

definition started :: "string \<Rightarrow> int \<Rightarrow> rat \<Rightarrow> session" where
  "started videoId fileSize dur = initializeStream fileSize dur (idle\<lparr> currentVideoId := Some videoId \<rparr>)"



section \<open>Example data\<close>

definition demo_course :: course where
  "demo_course = \<lparr> c_id = ''c1'', c_courseId = ''intro'', c_creator = ''u1'' \<rparr>"

definition demo_video :: video where
  "demo_video =
     \<lparr> v_id = ''v1'', v_videoId = ''abc1234'', v_title = ''Lesson'', v_duration = 600,
       v_mimeType = Some ''video/mp4'', v_filename = ''a.mp4'', v_course = demo_course \<rparr>"

definition demo_bytes :: "byte list" where
  "demo_bytes = [10, 11, 12, 13, 14, 15, 16, 17]"

text \<open>One course of creator \<open>u1\<close>, bought by \<open>u2\<close>; \<open>u3\<close> has an account and no
  purchase. Token \<open>tN\<close> is the valid token of user \<open>uN\<close>.\<close>

definition demo_backend :: backend where
  "demo_backend =
     \<lparr> users = [\<lparr> u_id = ''u1'' \<rparr>, \<lparr> u_id = ''u2'' \<rparr>, \<lparr> u_id = ''u3'' \<rparr>],
       videos = [demo_video],
       purchases = [(''u2'', ''c1'')],
       jwtVerify = (\<lambda>t. if t = ''t1'' then Some ''u1'' else if t = ''t2'' then Some ''u2''
                         else if t = ''t3'' then Some ''u3'' else None),
       dataDir = ''data'',
       files = (\<lambda>p. if p = ''data/intro/a.mp4'' then Some demo_bytes else None) \<rparr>"

text \<open>The same records with the stored file gone.\<close>

definition demo_backend_no_file :: backend where
  "demo_backend_no_file = demo_backend\<lparr> files := (\<lambda>p. None) \<rparr>"

definition demo_request :: "string \<Rightarrow> string \<Rightarrow> request" where
  "demo_request token videoId =
     \<lparr> authorization = Some (''Bearer '' @ token), header_range = None, query_token = None,
       query_start = None, query_end = None, param_videoId = videoId \<rparr>"

section \<open>Notions the statements about the controller use\<close>

text \<open>Nothing is on the network, or exactly one request is and the fetching flag is set.\<close>

definition single_flight :: "session \<Rightarrow> bool" where
  "single_flight s = (inflight s = [] \<or> (isFetchingChunkRef s \<and> length (inflight s) = 1))"

definition isFetch :: "effect \<Rightarrow> bool" where
  "isFetch e = (case e of FetchSegment videoId start end \<Rightarrow> True | _ \<Rightarrow> False)"

text \<open>The segment requests among the effects, in their order.\<close>

definition fetches :: "effect list \<Rightarrow> effect list" where
  "fetches out = filter isFetch out"

text \<open>\<open>ceil (fileSize / STREAM_CHUNK_SIZE)\<close>, and the request for chunk \<open>k\<close> of a file.\<close>

definition chunkCount :: "int \<Rightarrow> nat" where
  "chunkCount fileSize = nat \<lceil>(of_int fileSize :: rat) / of_int STREAM_CHUNK_SIZE\<rceil>"

definition chunkRequest :: "string \<Rightarrow> int \<Rightarrow> nat \<Rightarrow> effect" where
  "chunkRequest videoId fileSize k =
     FetchSegment videoId (int k * STREAM_CHUNK_SIZE)
       (min (int k * STREAM_CHUNK_SIZE + STREAM_CHUNK_SIZE - 1) (fileSize - 1))"

text \<open>The byte a seek to time \<open>t\<close> maps to: \<open>clamp (floor (fileSize * t / dur)) 0 (fileSize - 1)\<close>.\<close>

definition targetByte :: "int \<Rightarrow> rat \<Rightarrow> rat \<Rightarrow> int" where
  "targetByte fileSize t dur = min (fileSize - 1) (max 0 \<lfloor>of_int fileSize * t / dur\<rfloor>)"

text \<open>The session while the request for chunk \<open>k\<close> is in flight and no seek has
  happened, and the session when the last chunk is appended and the stream is ended.\<close>

definition fetching :: "string \<Rightarrow> int \<Rightarrow> rat \<Rightarrow> nat \<Rightarrow> session" where
  "fetching videoId fileSize dur k =
     \<lparr> useMediaSource = True, currentVideoId = Some videoId, duration = dur, videoRef = True,
       mediaSourceRef = Some Open, sourceBufferRef = Some False, fileSizeRef = fileSize,
       chunkPointerRef = int k * STREAM_CHUNK_SIZE, isFetchingChunkRef = True,
       pendingSeekByteRef = None, isClearingBufferRef = False,
       hasStartedPlaybackRef = (0 < k), isVideoLoading = (k = 0), videoError = None,
       inflight = [\<lparr> f_activeVideoId = videoId, f_currentVideoId = videoId,
                     f_start = int k * STREAM_CHUNK_SIZE,
                     f_end = min (int k * STREAM_CHUNK_SIZE + STREAM_CHUNK_SIZE - 1)
                                 (fileSize - 1) \<rparr>] \<rparr>"

definition finished :: "string \<Rightarrow> int \<Rightarrow> rat \<Rightarrow> session" where
  "finished videoId fileSize dur =
     \<lparr> useMediaSource = True, currentVideoId = Some videoId, duration = dur, videoRef = True,
       mediaSourceRef = Some Ended, sourceBufferRef = Some False, fileSizeRef = fileSize,
       chunkPointerRef = fileSize, isFetchingChunkRef = False,
       pendingSeekByteRef = None, isClearingBufferRef = False,
       hasStartedPlaybackRef = True, isVideoLoading = False, videoError = None,
       inflight = [] \<rparr>"

text \<open>A session of the example video: 120,000,000 bytes, 600 seconds.\<close>

definition demo_session :: session where
  "demo_session = started ''v1'' 120000000 600"

definition demo_fetch :: "int \<Rightarrow> int \<Rightarrow> fetch" where
  "demo_fetch a b =
     \<lparr> f_activeVideoId = ''v1'', f_currentVideoId = ''v1'', f_start = a, f_end = b \<rparr>"


section \<open>Decimal strings and \<open>parseInt\<close>\<close>

lemma digitVal_digitChar: "d < 10 \<Longrightarrow> digitVal (digitChar d) = d"
  by (simp add: digitVal_def digitChar_def)

lemma isDigit_digitChar: "d < 10 \<Longrightarrow> isDigit (digitChar d)"
  by (simp add: isDigit_def digitChar_def)

lemma showNat_nonempty: "showNat n \<noteq> []"
  by (subst showNat.simps) simp

lemma showNat_digits: "c \<in> set (showNat n) \<Longrightarrow> isDigit c"
proof (induction n arbitrary: c rule: showNat.induct)
  case (1 n)
  show ?case
  proof (cases "n < 10")
    case True
    with "1.prems" show ?thesis
      by (subst (asm) showNat.simps) (simp add: isDigit_digitChar)
  next
    case False
    with "1.prems" have "c \<in> set (showNat (n div 10)) \<or> c = digitChar (n mod 10)"
      by (subst (asm) showNat.simps) auto
    with False "1.IH" show ?thesis
      by (auto simp: isDigit_digitChar)
  qed
qed

lemma showNat_value: "foldl (\<lambda>n c. 10 * n + digitVal c) 0 (showNat n) = n"
proof (induction n rule: showNat.induct)
  case (1 n)
  show ?case
  proof (cases "n < 10")
    case True
    then show ?thesis by (subst showNat.simps) (simp add: digitVal_digitChar)
  next
    case False
    with "1.IH" show ?thesis
      by (subst showNat.simps) (simp add: digitVal_digitChar)
  qed
qed

lemma isDigit_plain: "isDigit c \<Longrightarrow> \<not> isWhiteSpace c \<and> c \<noteq> CHR ''-'' \<and> c \<noteq> CHR ''+''"
  by (auto simp: isDigit_def isWhiteSpace_def)

lemma parseInt_digits:
  assumes "z \<noteq> []" and "\<forall>c \<in> set z. isDigit c"
  shows "parseInt z = Some (int (foldl (\<lambda>n c. 10 * n + digitVal c) 0 z))"
proof -
  from assms have x: "isDigit (hd z)" by simp
  then have nx: "\<not> isWhiteSpace (hd z)" "hd z \<noteq> CHR ''-''" "hd z \<noteq> CHR ''+''"
    using isDigit_plain by blast+
  have tw: "takeWhile isDigit z = z" using assms by simp
  have dw: "dropWhile isWhiteSpace z = z" using assms(1) nx(1) by (cases z) auto
  show ?thesis
    unfolding parseInt_def dw Let_def using nx assms(1) by (simp add: tw)
qed

lemma parseInt_showNat: "parseInt (showNat n) = Some (int n)"
  using parseInt_digits [of "showNat n"] showNat_nonempty showNat_digits showNat_value by simp

text \<open>The decimal string of an integer is read back as that integer: a query parameter
  written as a decimal number has that number as its value.\<close>

lemma parseInt_showInt: "parseInt (showInt i) = Some i"
proof (cases "i < 0")
  case False
  then show ?thesis by (simp add: showInt_def parseInt_showNat)
next
  case True
  let ?z = "showNat (nat (- i))"
  have tw: "takeWhile isDigit ?z = ?z"
    using showNat_digits by simp
  have ws: "\<not> isWhiteSpace CHR ''-''" by (simp add: isWhiteSpace_def)
  have "parseInt (CHR ''-'' # ?z) = Some (- int (nat (- i)))"
    unfolding parseInt_def Let_def using ws showNat_nonempty [of "nat (- i)"]
    by (simp add: tw showNat_value)
  with True show ?thesis by (simp add: showInt_def)
qed

lemma parseInt_examples:
  "parseInt ''2'' = Some 2" "parseInt ''5'' = Some 5" "parseInt ''200'' = Some 200"
  "parseInt ''300'' = Some 300" "parseInt ''undefined'' = None" "parseInt ''-4'' = Some (- 4)"
  "parseInt ''abc'' = None"
  by code_simp+

lemma showInt_examples:
  "showInt 0 = ''0''" "showInt 2 = ''2''" "showInt 5 = ''5''" "showInt 7 = ''7''"
  "showInt 8 = ''8''" "showInt 200 = ''200''"
  by code_simp+


section \<open>The segment endpoint\<close>

lemmas demo_defs = demo_backend_def demo_request_def demo_video_def demo_course_def
  demo_bytes_def demo_backend_no_file_def

lemmas protect_defs = protect_def bearerToken_def startsWith_def element_def truthy_def
  findUserById_def Let_def

lemma resolve_Inr_file:
  assumes "resolveVideoResource b vid usr = Inr r"
  shows "\<exists>content. files b (r_filePath r) = Some content \<and> r_fileSize r = int (length content)"
  using assms
  by (auto simp: resolveVideoResource_def Let_def split: option.splits if_splits)

lemma segmentWindow_bounds:
  assumes "1 \<le> fileSize" and "segmentWindow fileSize qs qe = (s, e)"
  shows "0 \<le> s \<and> s \<le> e \<and> e \<le> fileSize - 1"
  using assms
  by (auto simp: segmentWindow_def Let_def DEFAULT_CHUNK_SIZE_def split: option.splits if_splits)

lemma segmentWindow_in_range:
  assumes "0 \<le> s" "s \<le> e" "e < fileSize"
  shows "segmentWindow fileSize (Some s) (Some e) = (s, e)"
  using assms by (simp add: segmentWindow_def Let_def)


lemma serve_segments:
  assumes "protect b req = Inr usr"
    and "resolveVideoResource b (param_videoId req) usr = Inr r"
    and "segmentWindow (r_fileSize r) (parseIntArg (query_start req))
           (parseIntArg (query_end req)) = (s, e)"
  shows "serve Segments b req =
           \<lparr> status = 206, headers = partialHead (r_video r) (r_fileSize r) s e,
             payload = createReadStream b (r_filePath r) (Some (s, e)) \<rparr>"
  using assms by (simp add: serve_def handlerOf_def streamVideoSegment_def)

lemma header_partialHead:
  "map_of (partialHead v n s e) ''Content-Range'' =
     Some (Str (''bytes '' @ showInt s @ ''-'' @ showInt e @ ''/'' @ showInt n))"
  "map_of (partialHead v n s e) ''Content-Length'' = Some (Num (e - s + 1))"
  by (simp_all add: partialHead_def)

lemma createReadStream_window:
  assumes "files b p = Some content" "0 \<le> s" "s \<le> e"
  shows "createReadStream b p (Some (s, e)) =
           FileBytes (take (nat (e - s + 1)) (drop (nat s) content))"
  using assms by (simp add: createReadStream_def)

lemma resolve_demo:
  "resolveVideoResource demo_backend ''v1'' \<lparr> u_id = ''u1'' \<rparr> =
     Inr \<lparr> r_video = demo_video, r_course = demo_course, r_filePath = ''data/intro/a.mp4'',
           r_fileSize = 8 \<rparr>"
  by (simp add: resolveVideoResource_def demo_defs findVideo_def findPurchase_def pathJoin3_def
      Let_def)

text \<open>
  Claim C1. For a stored video file \<open>content\<close> and a requester that \<open>protect\<close> and
  \<open>resolveVideoResource\<close> admit, a segment request whose \<open>start\<close> and \<open>end\<close> query
  parameters have the integer values \<open>start\<close> and \<open>end\<close> with
  \<open>0 \<le> start \<le> end < size\<close> is answered with status 206, the header
  \<open>Content-Range: bytes start-end/size\<close>, the header \<open>Content-Length: end - start + 1\<close>,
  and exactly the bytes \<open>start\<close> to \<open>end\<close> of the file, \<open>end - start + 1\<close> of them.
\<close>

theorem segment_exact_range:
  assumes "protect b req = Inr usr"
    and "resolveVideoResource b (param_videoId req) usr = Inr r"
    and "files b (r_filePath r) = Some content"
    and "parseIntArg (query_start req) = Some start"
    and "parseIntArg (query_end req) = Some end"
    and "0 \<le> start" and "start \<le> end" and "end < int (length content)"
  shows "status (serve Segments b req) = 206
       \<and> header (serve Segments b req) ''Content-Range'' =
           Some (Str (''bytes '' @ showInt start @ ''-'' @ showInt end @ ''/''
                      @ showInt (int (length content))))
       \<and> header (serve Segments b req) ''Content-Length'' = Some (Num (end - start + 1))
       \<and> payload (serve Segments b req) =
           FileBytes (take (nat (end - start + 1)) (drop (nat start) content))
       \<and> int (length (take (nat (end - start + 1)) (drop (nat start) content)))
           = end - start + 1"
proof -
  from assms(2,3) have sz: "r_fileSize r = int (length content)"
    using resolve_Inr_file by fastforce
  have w: "segmentWindow (r_fileSize r) (parseIntArg (query_start req))
             (parseIntArg (query_end req)) = (start, end)"
    using assms(4-8) sz by (simp add: segmentWindow_in_range)
  have sv: "serve Segments b req =
      \<lparr> status = 206, headers = partialHead (r_video r) (r_fileSize r) start end,
        payload = createReadStream b (r_filePath r) (Some (start, end)) \<rparr>"
    by (rule serve_segments [OF assms(1,2) w])
  have len: "int (length (take (nat (end - start + 1)) (drop (nat start) content)))
               = end - start + 1"
    using assms(6-8) by simp
  show ?thesis
    using sv sz len assms(3,6,7)
    by (simp add: header_def header_partialHead createReadStream_window)
qed

theorem segment_exact_range_witness:
  "status (serve Segments demo_backend
             ((demo_request ''t1'' ''v1'')\<lparr> query_start := Some ''2'', query_end := Some ''5'' \<rparr>))
     = 206
   \<and> header (serve Segments demo_backend
             ((demo_request ''t1'' ''v1'')\<lparr> query_start := Some ''2'', query_end := Some ''5'' \<rparr>))
         ''Content-Range'' = Some (Str ''bytes 2-5/8'')
   \<and> header (serve Segments demo_backend
             ((demo_request ''t1'' ''v1'')\<lparr> query_start := Some ''2'', query_end := Some ''5'' \<rparr>))
         ''Content-Length'' = Some (Num 4)
   \<and> payload (serve Segments demo_backend
             ((demo_request ''t1'' ''v1'')\<lparr> query_start := Some ''2'', query_end := Some ''5'' \<rparr>))
       = FileBytes [12, 13, 14, 15]"
proof -
  let ?req = "(demo_request ''t1'' ''v1'')\<lparr> query_start := Some ''2'', query_end := Some ''5'' \<rparr>"
  have p: "protect demo_backend ?req = Inr \<lparr> u_id = ''u1'' \<rparr>"
    by (simp add: protect_defs demo_defs)
  have r: "resolveVideoResource demo_backend (param_videoId ?req) \<lparr> u_id = ''u1'' \<rparr> =
     Inr \<lparr> r_video = demo_video, r_course = demo_course, r_filePath = ''data/intro/a.mp4'',
           r_fileSize = 8 \<rparr>"
    using resolve_demo by (simp add: demo_request_def)
  have f: "files demo_backend (r_filePath \<lparr> r_video = demo_video, r_course = demo_course,
             r_filePath = ''data/intro/a.mp4'', r_fileSize = 8 \<rparr>) = Some demo_bytes"
    by (simp add: demo_defs)
  from segment_exact_range [OF p r f, of 2 5]
  show ?thesis
    by (simp add: parseIntArg_def parseInt_examples showInt_examples demo_bytes_def)
qed



text \<open>
  Claim C10. For a stored video file of at least one byte, an admitted requester and
  any \<open>start\<close> and \<open>end\<close> query values at all (absent, not a number, negative, beyond
  the size, or \<open>end < start\<close>), the segment handler serves a window with
  \<open>0 \<le> start \<le> end \<le> size - 1\<close>: the answer is status 206, its \<open>Content-Length\<close> is
  \<open>end - start + 1 \<ge> 1\<close>, and the read of the file from \<open>start\<close> to \<open>end\<close> does not
  throw and yields exactly that many bytes.
\<close>

theorem segment_clamping_total:
  assumes "protect b req = Inr usr"
    and "resolveVideoResource b (param_videoId req) usr = Inr r"
    and "files b (r_filePath r) = Some content"
    and "content \<noteq> []"
  shows "\<exists>start end.
           segmentWindow (int (length content)) (parseIntArg (query_start req))
             (parseIntArg (query_end req)) = (start, end)
         \<and> 0 \<le> start \<and> start \<le> end \<and> end \<le> int (length content) - 1
         \<and> serve Segments b req =
             \<lparr> status = 206,
               headers = partialHead (r_video r) (int (length content)) start end,
               payload = FileBytes (take (nat (end - start + 1)) (drop (nat start) content)) \<rparr>
         \<and> header (serve Segments b req) ''Content-Length'' = Some (Num (end - start + 1))
         \<and> 1 \<le> end - start + 1
         \<and> int (length (take (nat (end - start + 1)) (drop (nat start) content)))
             = end - start + 1"
proof -
  let ?n = "int (length content)"
  from assms(2,3) have sz: "r_fileSize r = ?n"
    using resolve_Inr_file by fastforce
  from assms(4) have pos: "1 \<le> ?n" by (cases content) auto
  obtain s e where w: "segmentWindow ?n (parseIntArg (query_start req))
                         (parseIntArg (query_end req)) = (s, e)"
    by (cases "segmentWindow ?n (parseIntArg (query_start req)) (parseIntArg (query_end req))")
  from segmentWindow_bounds [OF pos w] have bd: "0 \<le> s" "s \<le> e" "e \<le> ?n - 1" by simp_all
  have sv: "serve Segments b req =
      \<lparr> status = 206, headers = partialHead (r_video r) (r_fileSize r) s e,
        payload = createReadStream b (r_filePath r) (Some (s, e)) \<rparr>"
    using w sz by (intro serve_segments [OF assms(1,2)]) simp
  have rd: "createReadStream b (r_filePath r) (Some (s, e)) =
              FileBytes (take (nat (e - s + 1)) (drop (nat s) content))"
    using assms(3) bd by (intro createReadStream_window) simp_all
  have len: "int (length (take (nat (e - s + 1)) (drop (nat s) content))) = e - s + 1"
    using bd by simp
  have "serve Segments b req =
             \<lparr> status = 206, headers = partialHead (r_video r) ?n s e,
               payload = FileBytes (take (nat (e - s + 1)) (drop (nat s) content)) \<rparr>"
    using sv rd sz by simp
  moreover from this have "header (serve Segments b req) ''Content-Length'' = Some (Num (e - s + 1))"
    by (simp add: header_def header_partialHead)
  ultimately show ?thesis
    using w bd len by (intro exI [of _ s] exI [of _ e]) simp
qed

theorem segment_clamping_total_witness:
  "serve Segments demo_backend
     ((demo_request ''t1'' ''v1'')\<lparr> query_start := Some ''-4'', query_end := Some ''abc'' \<rparr>)
   = \<lparr> status = 206, headers = partialHead demo_video 8 0 7, payload = FileBytes demo_bytes \<rparr>
   \<and> header (serve Segments demo_backend
        ((demo_request ''t1'' ''v1'')\<lparr> query_start := Some ''-4'', query_end := Some ''abc'' \<rparr>))
       ''Content-Length'' = Some (Num 8)"
proof -
  let ?req = "(demo_request ''t1'' ''v1'')\<lparr> query_start := Some ''-4'', query_end := Some ''abc'' \<rparr>"
  have p: "protect demo_backend ?req = Inr \<lparr> u_id = ''u1'' \<rparr>"
    by (simp add: protect_defs demo_defs)
  have r: "resolveVideoResource demo_backend (param_videoId ?req) \<lparr> u_id = ''u1'' \<rparr> =
     Inr \<lparr> r_video = demo_video, r_course = demo_course, r_filePath = ''data/intro/a.mp4'',
           r_fileSize = 8 \<rparr>"
    using resolve_demo by (simp add: demo_request_def)
  have f: "files demo_backend (r_filePath \<lparr> r_video = demo_video, r_course = demo_course,
             r_filePath = ''data/intro/a.mp4'', r_fileSize = 8 \<rparr>) = Some demo_bytes"
    by (simp add: demo_defs)
  have n: "demo_bytes \<noteq> []" "int (length demo_bytes) = 8" by (simp_all add: demo_bytes_def)
  have w: "segmentWindow 8 (Some (- 4)) None = (0, 7)"
    by (simp add: segmentWindow_def DEFAULT_CHUNK_SIZE_def)
  from segment_clamping_total [OF p r f n(1)]
  show ?thesis
    unfolding n(2) by (auto simp: parseIntArg_def parseInt_examples w demo_bytes_def)
qed

section \<open>The full-stream endpoint against the segment endpoint\<close>

lemma rangeBounds_examples:
  "rangeBounds ''bytes=200-300'' = (Some 200, Some 300)"
  "rangeBounds ''bytes=2-5'' = (Some 2, Some 5)"
  by code_simp+


text \<open>Without a range header the full-stream handler sends the whole file with status
  200, its length and \<open>Accept-Ranges: bytes\<close>.\<close>

lemma stream_without_range:
  assumes "protect b req = Inr usr"
    and "resolveVideoResource b (param_videoId req) usr = Inr r"
    and "files b (r_filePath r) = Some content"
    and "\<not> truthy (header_range req)"
  shows "status (serve Stream b req) = 200
       \<and> header (serve Stream b req) ''Content-Length'' = Some (Num (int (length content)))
       \<and> header (serve Stream b req) ''Accept-Ranges'' = Some (Str ''bytes'')
       \<and> payload (serve Stream b req) = FileBytes content"
proof -
  from assms(2,3) have sz: "r_fileSize r = int (length content)"
    using resolve_Inr_file by fastforce
  show ?thesis
    using assms sz
    by (simp add: serve_def handlerOf_def streamVideo_def header_def createReadStream_def)
qed

text \<open>
  Claim C3, at the request \<open>Range: bytes=200-300\<close> for the stored file of 8 bytes. The
  full-stream handler keeps \<open>start = 200\<close> and cuts \<open>end\<close> to 7: it writes the head
  \<open>206\<close> with \<open>Content-Range: bytes 200-7/8\<close> and \<open>Content-Length: -192\<close>, and the read
  of the window throws. The segment handler, asked for the same \<open>start\<close> and \<open>end\<close>,
  serves the trailing window \<open>bytes 0-7/8\<close> with all 8 bytes.
\<close>

theorem stream_misses_rewindow:
  "serve Stream demo_backend ((demo_request ''t1'' ''v1'')\<lparr> header_range := Some ''bytes=200-300'' \<rparr>)
     = \<lparr> status = 206, headers = partialHead demo_video 8 200 7,
         payload = ReadStreamThrew ''ERR_OUT_OF_RANGE'' \<rparr>
   \<and> map_of (partialHead demo_video 8 200 7) ''Content-Length'' = Some (Num (- 192))
   \<and> serve Segments demo_backend
        ((demo_request ''t1'' ''v1'')\<lparr> query_start := Some ''200'', query_end := Some ''300'' \<rparr>)
     = \<lparr> status = 206, headers = partialHead demo_video 8 0 7, payload = FileBytes demo_bytes \<rparr>"
proof -
  let ?req = "(demo_request ''t1'' ''v1'')\<lparr> header_range := Some ''bytes=200-300'' \<rparr>"
  let ?seg = "(demo_request ''t1'' ''v1'')\<lparr> query_start := Some ''200'', query_end := Some ''300'' \<rparr>"
  have p: "protect demo_backend ?req = Inr \<lparr> u_id = ''u1'' \<rparr>"
          "protect demo_backend ?seg = Inr \<lparr> u_id = ''u1'' \<rparr>"
    by (simp_all add: protect_defs demo_defs)
  have w: "streamWindow 8 (Some 200) (Some 300) = (200, 7)"
          "segmentWindow 8 (Some 200) (Some 300) = (0, 7)"
    by (simp_all add: streamWindow_def segmentWindow_def DEFAULT_CHUNK_SIZE_def)
  have rd: "createReadStream demo_backend ''data/intro/a.mp4'' (Some (200, 7))
              = ReadStreamThrew ''ERR_OUT_OF_RANGE''"
           "createReadStream demo_backend ''data/intro/a.mp4'' (Some (0, 7)) = FileBytes demo_bytes"
    by (simp_all add: createReadStream_def demo_defs)
  have "serve Stream demo_backend ?req
     = \<lparr> status = 206, headers = partialHead demo_video 8 200 7,
         payload = ReadStreamThrew ''ERR_OUT_OF_RANGE'' \<rparr>"
    unfolding serve_def handlerOf_def streamVideo_def p
    by (simp add: demo_request_def resolve_demo truthy_def rangeBounds_examples w rd)
  moreover have "serve Segments demo_backend ?seg
     = \<lparr> status = 206, headers = partialHead demo_video 8 0 7, payload = FileBytes demo_bytes \<rparr>"
    unfolding serve_def handlerOf_def streamVideoSegment_def p
    by (simp add: demo_request_def resolve_demo parseIntArg_def parseInt_examples w rd)
  ultimately show ?thesis
    by (simp add: header_partialHead)
qed
section \<open>The access gate\<close>



lemma protect_Inr_iff:
  "protect b req = Inr u \<longleftrightarrow>
     truthy (bearerToken req)
     \<and> (\<exists>i. jwtVerify b (the (bearerToken req)) = Some i \<and> findUserById b i = Some u)"
  by (auto simp: protect_def Let_def split: option.splits)














section \<open>The metadata endpoint\<close>




section \<open>The stream controller: one fetch at a time\<close>

lemma appendNextChunk_fetching:
  assumes "isFetchingChunkRef s"
  shows "appendNextChunk s = (s, [])"
  using assms by (simp add: appendNextChunk_def)

lemma endOfStream_flight:
  "inflight (fst (endOfStream s)) = inflight s"
  "isFetchingChunkRef (fst (endOfStream s)) = isFetchingChunkRef s"
  by (simp_all add: endOfStream_def)

lemma appendNextChunk_single_flight:
  assumes "single_flight s"
  shows "single_flight (fst (appendNextChunk s))"
proof (cases "isFetchingChunkRef s")
  case True
  with assms show ?thesis by (simp add: appendNextChunk_fetching)
next
  case False
  with assms have "inflight s = []" by (auto simp: single_flight_def)
  then show ?thesis
    by (simp add: appendNextChunk_def single_flight_def Let_def endOfStream_flight)
qed

lemma resumeAppend_single_flight:
  assumes "single_flight s" and "f \<in> set (inflight s)"
  shows "single_flight (fst (resumeAppend f ok s))"
proof -
  from assms have "inflight s = [f]"
    by (cases "inflight s") (auto simp: single_flight_def)
  then show ?thesis
    by (simp add: resumeAppend_def single_flight_def Let_def fetchFailed_def)
qed

lemma endOfStream_single_flight:
  assumes "single_flight s"
  shows "single_flight (fst (endOfStream s))"
  using assms by (simp add: single_flight_def endOfStream_flight)

lemma handleSourceBufferUpdateEnd_single_flight:
  assumes "single_flight s"
  shows "single_flight (fst (handleSourceBufferUpdateEnd s))"
proof -
  have a: "single_flight (s\<lparr> isClearingBufferRef := False \<rparr>)"
          "single_flight (s\<lparr> isClearingBufferRef := False, chunkPointerRef := b,
                             pendingSeekByteRef := None \<rparr>)" for b
    using assms by (simp_all add: single_flight_def)
  show ?thesis
    unfolding handleSourceBufferUpdateEnd_def Let_def
    by (auto split: option.splits
        intro!: appendNextChunk_single_flight endOfStream_single_flight a assms)
qed

lemma handleFragmentedSeek_flight:
  "inflight (fst (handleFragmentedSeek t rt s)) = inflight s"
  "isFetchingChunkRef (fst (handleFragmentedSeek t rt s)) = isFetchingChunkRef s"
  by (simp_all add: handleFragmentedSeek_def clearSourceBufferForSeek_def Let_def)

lemma step_single_flight:
  assumes "single_flight s"
  shows "single_flight (fst (step ev s))"
proof (cases ev)
  case SourceOpen
  have "single_flight (s\<lparr> mediaSourceRef := Some Open, sourceBufferRef := Some False,
                         chunkPointerRef := 0, pendingSeekByteRef := None \<rparr>)"
    using assms by (simp add: single_flight_def)
  from appendNextChunk_single_flight [OF this] assms SourceOpen
  show ?thesis by (simp add: step_def handleSourceOpen_def)
next
  case (FetchSettled f ok)
  with assms show ?thesis
    by (simp add: step_def resumeAppend_single_flight)
next
  case (UpdateEnd u)
  have "single_flight (s\<lparr> sourceBufferRef := Some u \<rparr>)"
    using assms by (simp add: single_flight_def)
  from handleSourceBufferUpdateEnd_single_flight [OF this] assms UpdateEnd
  show ?thesis by (simp add: step_def)
next
  case (Seeking t rt)
  with assms show ?thesis
    by (simp add: step_def single_flight_def handleFragmentedSeek_flight)
qed

lemma run_Cons_fst: "fst (run (ev # evs) s) = fst (run evs (fst (step ev s)))"
  by (simp add: case_prod_unfold Let_def)

lemma run_Cons_snd:
  "snd (run (ev # evs) s) = snd (step ev s) @ snd (run evs (fst (step ev s)))"
  by (simp add: case_prod_unfold Let_def)

lemma run_single_flight:
  assumes "single_flight s"
  shows "single_flight (fst (run evs s))"
  using assms
proof (induction evs arbitrary: s)
  case Nil
  then show ?case by simp
next
  case (Cons ev evs)
  from Cons.IH [OF step_single_flight [OF Cons.prems, of ev]]
  show ?case by (simp only: run_Cons_fst)
qed

lemma started_single_flight: "single_flight (started videoId fileSize dur)"
  by (simp add: started_def initializeStream_def cleanupMediaSource_def idle_def
      single_flight_def Let_def)

text \<open>
  The guard on the fetching flag, and what it gives within one session: a call of
  \<open>appendNextChunk\<close> while the flag is set changes nothing and asks nothing of the
  network; and in every state that a session reaches from a start with no request on the
  network, by any sequence of its events, at most one chunk request is in flight, and
  one is in flight only while the flag is set.
\<close>

theorem one_fetch_in_flight:
  "(isFetchingChunkRef s \<longrightarrow> appendNextChunk s = (s, []))
   \<and> length (inflight (fst (run evs (started videoId fileSize dur)))) \<le> 1
   \<and> (inflight (fst (run evs (started videoId fileSize dur))) \<noteq> [] \<longrightarrow>
        isFetchingChunkRef (fst (run evs (started videoId fileSize dur))))"
  using run_single_flight [OF started_single_flight, of evs videoId fileSize dur]
  by (auto simp: appendNextChunk_fetching single_flight_def)
theorem one_fetch_in_flight_witness:
  "isFetchingChunkRef (fst (run [SourceOpen] demo_session))
   \<and> appendNextChunk (fst (run [SourceOpen] demo_session)) = (fst (run [SourceOpen] demo_session), [])
   \<and> length (inflight (fst (run [SourceOpen, FetchSettled (demo_fetch 0 2097151) True,
                                    UpdateEnd False, Seeking 300 False] demo_session))) \<le> 1"
proof -
  have f: "isFetchingChunkRef (fst (run [SourceOpen] demo_session))"
    by code_simp
  from one_fetch_in_flight
         [where s = "fst (run [SourceOpen] demo_session)"
            and evs = "[SourceOpen, FetchSettled (demo_fetch 0 2097151) True, UpdateEnd False,
                        Seeking 300 False]"
            and videoId = "''v1''" and fileSize = 120000000 and dur = 600] f
  show ?thesis
    unfolding demo_session_def by blast
qed
text \<open>
  Claim C8 fails across a change of the video. The request for the first chunk of video
  \<open>v1\<close> is in flight when the viewer changes to video \<open>v2\<close>; the clean-up resets the
  fetching flag, and the session of \<open>v2\<close> requests its first chunk. Then the request of
  \<open>v1\<close> settles: the check of the video identity compares the closure's
  \<^verbatim>\<open>currentVideoId\<close> with its own copy and lets the bytes pass, they are appended to
  the buffer of \<open>v2\<close>, and the \<^verbatim>\<open>finally\<close> block resets the fetching flag. At the
  \<open>updateend\<close> of that append the session of \<open>v2\<close> requests its second chunk while
  its first request is still in flight: two chunk requests of one session are in flight.
\<close>

theorem two_fetches_after_video_change:
  "inflight
     (fst (run [SourceOpen, FetchSettled (demo_fetch 0 2097151) True, UpdateEnd False]
             (changeVideo ''v2'' 50000000 300 (fst (run [SourceOpen] demo_session)))))
   = [\<lparr> f_activeVideoId = ''v2'', f_currentVideoId = ''v2'', f_start = 0, f_end = 2097151 \<rparr>,
      \<lparr> f_activeVideoId = ''v2'', f_currentVideoId = ''v2'', f_start = 2097152,
        f_end = 4194303 \<rparr>]
   \<and> snd (run [SourceOpen, FetchSettled (demo_fetch 0 2097151) True, UpdateEnd False]
             (changeVideo ''v2'' 50000000 300 (fst (run [SourceOpen] demo_session))))
   = [FetchSegment ''v2'' 0 2097151, AppendBuffer, FetchSegment ''v2'' 2097152 4194303]
   \<and> inflight (changeVideo ''v2'' 50000000 300 (fst (run [SourceOpen] demo_session)))
   = [demo_fetch 0 2097151]"
  by code_simp


section \<open>The stream controller: seeks\<close>




















text \<open>
  Beyond the guards, a seek can be lost to the chunk request that is in flight when it
  arrives. In the example session the request for bytes 2,097,152 to 4,194,303 is in
  flight when the viewer seeks to 300 s; the removal finishes first, and its
  \<open>updateend\<close> makes byte 60,000,000 the cursor but issues nothing, the fetching flag
  being set; then the request settles and puts the cursor to 4,194,304, where the next
  request begins.
\<close>

lemma seek_lost_to_request_in_flight:
  "snd (run [SourceOpen, FetchSettled (demo_fetch 0 2097151) True, UpdateEnd False,
             Seeking 300 False, UpdateEnd False,
             FetchSettled (demo_fetch 2097152 4194303) True, UpdateEnd False] demo_session)
     = [FetchSegment ''v1'' 0 2097151, AppendBuffer, FetchSegment ''v1'' 2097152 4194303,
        AbortBuffer, RemoveBuffer, AppendBuffer, FetchSegment ''v1'' 4194304 6291455]"
  "chunkPointerRef
     (fst (run [SourceOpen, FetchSettled (demo_fetch 0 2097151) True, UpdateEnd False,
                Seeking 300 False, UpdateEnd False] demo_session)) = 60000000"
  by code_simp+

section \<open>The stream controller: chunk by chunk\<close>

lemma less_chunkCount: "k < chunkCount fileSize \<longleftrightarrow> int k * STREAM_CHUNK_SIZE < fileSize"
proof -
  have "k < chunkCount fileSize \<longleftrightarrow>
          int k < \<lceil>(of_int fileSize :: rat) / of_int STREAM_CHUNK_SIZE\<rceil>"
    by (simp add: chunkCount_def zless_nat_eq_int_zless)
  also have "\<dots> \<longleftrightarrow> (of_int (int k) :: rat) < of_int fileSize / of_int STREAM_CHUNK_SIZE"
    by (rule less_ceiling_iff)
  also have "\<dots> \<longleftrightarrow> (of_int (int k * STREAM_CHUNK_SIZE) :: rat) < of_int fileSize"
    by (simp add: STREAM_CHUNK_SIZE_def pos_less_divide_eq)
  also have "\<dots> \<longleftrightarrow> int k * STREAM_CHUNK_SIZE < fileSize"
    by (rule of_int_less_iff)
  finally show ?thesis .
qed

lemma source_open_started:
  assumes "videoId \<noteq> []" and "1 \<le> fileSize"
  shows "step SourceOpen (started videoId fileSize dur)
           = (fetching videoId fileSize dur 0, [chunkRequest videoId fileSize 0])"
  using assms
  by (simp add: step_def started_def initializeStream_def cleanupMediaSource_def idle_def
      handleSourceOpen_def appendNextChunk_def truthy_def Let_def fetching_def
      chunkRequest_def getSegmentUrl_def STREAM_CHUNK_SIZE_def)

lemma playThrough_finished: "playThrough n (finished videoId fileSize dur) = (finished videoId fileSize dur, [])"
  by (cases n) (simp_all add: finished_def)

lemma round_more:
  assumes "videoId \<noteq> []" and "int (Suc k) * STREAM_CHUNK_SIZE < fileSize"
  shows "step (UpdateEnd False)
           (fst (step (FetchSettled (hd (inflight (fetching videoId fileSize dur k))) True)
                   (fetching videoId fileSize dur k)))
         = (fetching videoId fileSize dur (Suc k), [chunkRequest videoId fileSize (Suc k)])"
    and "snd (step (FetchSettled (hd (inflight (fetching videoId fileSize dur k))) True)
                (fetching videoId fileSize dur k)) = [AppendBuffer]"
proof -
  let ?C = STREAM_CHUNK_SIZE
  have e: "min (int k * ?C + ?C - 1) (fileSize - 1) = int k * ?C + ?C - 1"
    using assms(2) by (simp add: STREAM_CHUNK_SIZE_def)
  have c: "int k * ?C + ?C - 1 + 1 = int (Suc k) * ?C"
    by (simp add: algebra_simps)
  have m: "max (int (Suc k) * ?C) (min (int (Suc k) * ?C + ?C - 1) (fileSize - 1))
             = min (int (Suc k) * ?C + ?C - 1) (fileSize - 1)"
    using assms(2) by (simp add: STREAM_CHUNK_SIZE_def)
  have p: "0 \<le> int (Suc k) * ?C" by (simp add: STREAM_CHUNK_SIZE_def)
  with assms(2) have nz: "fileSize \<noteq> 0" by linarith
  show "snd (step (FetchSettled (hd (inflight (fetching videoId fileSize dur k))) True)
                (fetching videoId fileSize dur k)) = [AppendBuffer]"
    by (simp add: fetching_def step_def resumeAppend_def Let_def)
  have "fst (step (FetchSettled (hd (inflight (fetching videoId fileSize dur k))) True)
                   (fetching videoId fileSize dur k))
        = (fetching videoId fileSize dur k)
            \<lparr> inflight := [], sourceBufferRef := Some True,
              chunkPointerRef := int (Suc k) * ?C, hasStartedPlaybackRef := True,
              isVideoLoading := False, isFetchingChunkRef := False \<rparr>"
    unfolding c [symmetric]
    by (simp add: fetching_def step_def resumeAppend_def Let_def e)
  then show "step (UpdateEnd False)
           (fst (step (FetchSettled (hd (inflight (fetching videoId fileSize dur k))) True)
                   (fetching videoId fileSize dur k)))
         = (fetching videoId fileSize dur (Suc k), [chunkRequest videoId fileSize (Suc k)])"
    using assms m p nz
    by (simp add: fetching_def step_def handleSourceBufferUpdateEnd_def appendNextChunk_def
        truthy_def Let_def chunkRequest_def getSegmentUrl_def del: of_nat_Suc)
qed

lemma round_last:
  assumes "videoId \<noteq> []" and "int k * STREAM_CHUNK_SIZE < fileSize"
    and "\<not> int (Suc k) * STREAM_CHUNK_SIZE < fileSize"
  shows "step (UpdateEnd False)
           (fst (step (FetchSettled (hd (inflight (fetching videoId fileSize dur k))) True)
                   (fetching videoId fileSize dur k)))
         = (finished videoId fileSize dur, [EndOfStream])"
    and "snd (step (FetchSettled (hd (inflight (fetching videoId fileSize dur k))) True)
                (fetching videoId fileSize dur k)) = [AppendBuffer]"
proof -
  let ?C = STREAM_CHUNK_SIZE
  have e: "min (int k * ?C + ?C - 1) (fileSize - 1) = fileSize - 1"
    using assms(3) by (simp add: algebra_simps)
  show "snd (step (FetchSettled (hd (inflight (fetching videoId fileSize dur k))) True)
                (fetching videoId fileSize dur k)) = [AppendBuffer]"
    by (simp add: fetching_def step_def resumeAppend_def Let_def)
  have "fst (step (FetchSettled (hd (inflight (fetching videoId fileSize dur k))) True)
                   (fetching videoId fileSize dur k))
        = (fetching videoId fileSize dur k)
            \<lparr> inflight := [], sourceBufferRef := Some True,
              chunkPointerRef := fileSize, hasStartedPlaybackRef := True,
              isVideoLoading := False, isFetchingChunkRef := False \<rparr>"
    by (simp add: fetching_def step_def resumeAppend_def Let_def e)
  then show "step (UpdateEnd False)
           (fst (step (FetchSettled (hd (inflight (fetching videoId fileSize dur k))) True)
                   (fetching videoId fileSize dur k)))
         = (finished videoId fileSize dur, [EndOfStream])"
    by (simp add: fetching_def finished_def step_def handleSourceBufferUpdateEnd_def
        endOfStream_def Let_def)
qed

lemma playThrough_Suc:
  assumes "inflight s = f # fs"
  shows "playThrough (Suc n) s =
      (let (s1, out1) = step (FetchSettled f True) s;
           (s2, out2) = step (UpdateEnd False) s1;
           (s3, out3) = playThrough n s2
       in (s3, out1 @ out2 @ out3))"
  using assms by simp

lemma playThrough_fetching:
  assumes "videoId \<noteq> []" and "k < chunkCount fileSize" and "chunkCount fileSize - k \<le> n"
  shows "playThrough n (fetching videoId fileSize dur k)
           = (finished videoId fileSize dur,
              concat (map (\<lambda>j. [AppendBuffer, chunkRequest videoId fileSize j])
                        [Suc k..<chunkCount fileSize])
              @ [AppendBuffer, EndOfStream])"
  using assms(2,3)
proof (induction n arbitrary: k)
  case 0
  then show ?case by simp
next
  case (Suc n)
  let ?s = "fetching videoId fileSize dur k"
  have i: "inflight ?s = hd (inflight ?s) # []" by (simp add: fetching_def)
  note unfold = playThrough_Suc [OF i, of n]
  show ?case
  proof (cases "Suc k < chunkCount fileSize")
    case True
    then have lt: "int (Suc k) * STREAM_CHUNK_SIZE < fileSize"
      unfolding less_chunkCount .
    from True Suc.prems have "chunkCount fileSize - Suc k \<le> n" by simp
    from Suc.IH [OF True this] round_more [OF assms(1) lt, of dur] True
    show ?thesis
      unfolding unfold by (simp add: case_prod_unfold upt_conv_Cons)
  next
    case False
    then have nl: "\<not> int (Suc k) * STREAM_CHUNK_SIZE < fileSize"
      unfolding less_chunkCount .
    from Suc.prems(1) have lt: "int k * STREAM_CHUNK_SIZE < fileSize"
      unfolding less_chunkCount .
    from round_last [OF assms(1) lt nl, of dur] False
    show ?thesis
      unfolding unfold by (simp add: case_prod_unfold playThrough_finished)
  qed
qed

lemma fetches_Cons: "fetches (e # out) = (if isFetch e then e # fetches out else fetches out)"
  by (simp add: fetches_def)

lemma isFetch_chunkRequest: "isFetch (chunkRequest videoId fileSize k)"
  by (simp add: isFetch_def chunkRequest_def)

lemma fetches_rounds:
  "fetches (concat (map (\<lambda>j. [AppendBuffer, chunkRequest videoId fileSize j]) js) @ [AppendBuffer, EndOfStream])
     = map (chunkRequest videoId fileSize) js"
  by (induction js) (simp_all add: fetches_def isFetch_def chunkRequest_def)

lemma playback_requests:
  assumes "videoId \<noteq> []" and "1 \<le> fileSize" and "chunkCount fileSize \<le> n"
  shows "fetches (snd (step SourceOpen (started videoId fileSize dur))
                  @ snd (playThrough n (fst (step SourceOpen (started videoId fileSize dur)))))
           = map (chunkRequest videoId fileSize) [0..<chunkCount fileSize]"
    and "fst (playThrough n (fst (step SourceOpen (started videoId fileSize dur))))
           = finished videoId fileSize dur"
    and "last (snd (playThrough n (fst (step SourceOpen (started videoId fileSize dur)))))
           = EndOfStream"
proof -
  from assms(2) have pos: "0 < chunkCount fileSize"
    by (simp add: less_chunkCount)
  with assms(3) have n: "chunkCount fileSize - 0 \<le> n" by simp
  note pt = playThrough_fetching [OF assms(1) pos n, of dur]
  show "fetches (snd (step SourceOpen (started videoId fileSize dur))
                  @ snd (playThrough n (fst (step SourceOpen (started videoId fileSize dur)))))
           = map (chunkRequest videoId fileSize) [0..<chunkCount fileSize]"
    using pos
    by (simp add: source_open_started [OF assms(1,2)] pt upt_conv_Cons [of 0]
        fetches_Cons isFetch_chunkRequest fetches_rounds)
  show "fst (playThrough n (fst (step SourceOpen (started videoId fileSize dur))))
           = finished videoId fileSize dur"
    by (simp add: source_open_started [OF assms(1,2)] pt)
  show "last (snd (playThrough n (fst (step SourceOpen (started videoId fileSize dur)))))
           = EndOfStream"
    by (simp add: source_open_started [OF assms(1,2)] pt)
qed
lemma appendNextChunk_request:
  assumes "useMediaSource s" "currentVideoId s = Some videoId" "videoId \<noteq> []"
    and "sourceBufferRef s = Some False" "mediaSourceRef s \<noteq> None"
    and "\<not> isFetchingChunkRef s" "0 \<le> chunkPointerRef s" "chunkPointerRef s < fileSizeRef s"
  shows "appendNextChunk s =
           (s\<lparr> isFetchingChunkRef := True,
               inflight := inflight s @
                 [\<lparr> f_activeVideoId = videoId, f_currentVideoId = videoId,
                    f_start = chunkPointerRef s,
                    f_end = min (chunkPointerRef s + STREAM_CHUNK_SIZE - 1) (fileSizeRef s - 1) \<rparr>] \<rparr>,
            [FetchSegment videoId (chunkPointerRef s)
               (min (chunkPointerRef s + STREAM_CHUNK_SIZE - 1) (fileSizeRef s - 1))])"
proof -
  have "max (chunkPointerRef s) (min (chunkPointerRef s + STREAM_CHUNK_SIZE - 1) (fileSizeRef s - 1))
          = min (chunkPointerRef s + STREAM_CHUNK_SIZE - 1) (fileSizeRef s - 1)"
    using assms(8) by (simp add: STREAM_CHUNK_SIZE_def)
  with assms show ?thesis
    by (auto simp: appendNextChunk_def truthy_def Let_def getSegmentUrl_def)
qed

lemma settled_advances_cursor:
  assumes "f \<in> set (inflight s)" "f_activeVideoId f = f_currentVideoId f"
    and "sourceBufferRef s = Some False"
  shows "chunkPointerRef (fst (step (FetchSettled f True) s)) = f_end f + 1"
    and "snd (step (FetchSettled f True) s) = [AppendBuffer]"
  using assms by (simp_all add: step_def resumeAppend_def Let_def)

lemma appendNextChunk_at_end:
  assumes "useMediaSource s" "currentVideoId s = Some videoId" "videoId \<noteq> []"
    and "sourceBufferRef s = Some False" "mediaSourceRef s = Some Open"
    and "\<not> isFetchingChunkRef s" "fileSizeRef s \<noteq> 0" "fileSizeRef s \<le> chunkPointerRef s"
  shows "appendNextChunk s = (s\<lparr> mediaSourceRef := Some Ended \<rparr>, [EndOfStream])"
  using assms by (simp add: appendNextChunk_def truthy_def endOfStream_def)

lemma chunks_contiguous:
  assumes "Suc k < chunkCount fileSize"
  shows "min (int k * STREAM_CHUNK_SIZE + STREAM_CHUNK_SIZE - 1) (fileSize - 1) + 1
           = int (Suc k) * STREAM_CHUNK_SIZE"
  using assms unfolding less_chunkCount by (simp add: algebra_simps)

lemma last_chunk_end:
  assumes "0 < chunkCount fileSize"
  shows "min (int (chunkCount fileSize - 1) * STREAM_CHUNK_SIZE + STREAM_CHUNK_SIZE - 1)
             (fileSize - 1) = fileSize - 1"
proof -
  have "\<not> Suc (chunkCount fileSize - 1) < chunkCount fileSize" using assms by simp
  then have "\<not> int (Suc (chunkCount fileSize - 1)) * STREAM_CHUNK_SIZE < fileSize"
    unfolding less_chunkCount .
  then show ?thesis by (simp add: algebra_simps)
qed

text \<open>
  Claim C7. In chunk mode, a call of \<open>appendNextChunk\<close> that finds the buffer idle, no
  request in flight and the cursor inside the file requests exactly the bytes from the
  cursor to \<open>min (cursor + STREAM_CHUNK_SIZE - 1) (size - 1)\<close>, and when that request
  returns its bytes the cursor becomes its end plus one. A call that finds the cursor at
  or beyond the size issues no request and signals the end of the stream. So, when no
  seek happens, every request returns and every append finishes, a file of \<open>fileSize\<close>
  bytes is fetched in exactly \<open>ceil (fileSize / STREAM_CHUNK_SIZE)\<close> requests, request
  \<open>k\<close> being for the bytes from \<open>k * STREAM_CHUNK_SIZE\<close>; each range begins one byte
  after the one before ends, the last one ends at \<open>fileSize - 1\<close>, and the end of the
  stream is signalled after the last append.
\<close>

theorem chunk_by_chunk:
  "(useMediaSource s \<and> currentVideoId s = Some videoId \<and> videoId \<noteq> []
      \<and> sourceBufferRef s = Some False \<and> mediaSourceRef s \<noteq> None
      \<and> \<not> isFetchingChunkRef s \<and> 0 \<le> chunkPointerRef s
      \<and> chunkPointerRef s < fileSizeRef s
    \<longrightarrow> snd (appendNextChunk s) =
          [FetchSegment videoId (chunkPointerRef s)
             (min (chunkPointerRef s + STREAM_CHUNK_SIZE - 1) (fileSizeRef s - 1))]
        \<and> isFetchingChunkRef (fst (appendNextChunk s))
        \<and> inflight (fst (appendNextChunk s)) =
            inflight s @
              [\<lparr> f_activeVideoId = videoId, f_currentVideoId = videoId,
                 f_start = chunkPointerRef s,
                 f_end = min (chunkPointerRef s + STREAM_CHUNK_SIZE - 1) (fileSizeRef s - 1) \<rparr>])
   \<and> (f \<in> set (inflight s) \<and> f_activeVideoId f = f_currentVideoId f
      \<and> sourceBufferRef s = Some False
    \<longrightarrow> chunkPointerRef (fst (step (FetchSettled f True) s)) = f_end f + 1
        \<and> snd (step (FetchSettled f True) s) = [AppendBuffer])
   \<and> (useMediaSource s \<and> currentVideoId s = Some videoId \<and> videoId \<noteq> []
      \<and> sourceBufferRef s = Some False \<and> mediaSourceRef s = Some Open
      \<and> \<not> isFetchingChunkRef s \<and> fileSizeRef s \<noteq> 0
      \<and> fileSizeRef s \<le> chunkPointerRef s
    \<longrightarrow> appendNextChunk s = (s\<lparr> mediaSourceRef := Some Ended \<rparr>, [EndOfStream]))
   \<and> (videoId \<noteq> [] \<and> 1 \<le> fileSize \<and> chunkCount fileSize \<le> n
    \<longrightarrow> fetches (snd (step SourceOpen (started videoId fileSize dur))
                  @ snd (playThrough n (fst (step SourceOpen (started videoId fileSize dur)))))
          = map (chunkRequest videoId fileSize) [0..<chunkCount fileSize]
        \<and> length (fetches (snd (step SourceOpen (started videoId fileSize dur))
                  @ snd (playThrough n (fst (step SourceOpen (started videoId fileSize dur))))))
          = nat \<lceil>(of_int fileSize :: rat) / of_int STREAM_CHUNK_SIZE\<rceil>
        \<and> last (snd (playThrough n (fst (step SourceOpen (started videoId fileSize dur)))))
          = EndOfStream
        \<and> fst (playThrough n (fst (step SourceOpen (started videoId fileSize dur))))
          = finished videoId fileSize dur)
   \<and> (Suc k < chunkCount fileSize
    \<longrightarrow> min (int k * STREAM_CHUNK_SIZE + STREAM_CHUNK_SIZE - 1) (fileSize - 1) + 1
          = int (Suc k) * STREAM_CHUNK_SIZE)
   \<and> (0 < chunkCount fileSize
    \<longrightarrow> min (int (chunkCount fileSize - 1) * STREAM_CHUNK_SIZE + STREAM_CHUNK_SIZE - 1)
            (fileSize - 1) = fileSize - 1)"
proof (intro conjI impI)
  assume a: "useMediaSource s \<and> currentVideoId s = Some videoId \<and> videoId \<noteq> []
      \<and> sourceBufferRef s = Some False \<and> mediaSourceRef s \<noteq> None
      \<and> \<not> isFetchingChunkRef s \<and> 0 \<le> chunkPointerRef s
      \<and> chunkPointerRef s < fileSizeRef s"
  then have r: "appendNextChunk s =
           (s\<lparr> isFetchingChunkRef := True,
               inflight := inflight s @
                 [\<lparr> f_activeVideoId = videoId, f_currentVideoId = videoId,
                    f_start = chunkPointerRef s,
                    f_end = min (chunkPointerRef s + STREAM_CHUNK_SIZE - 1) (fileSizeRef s - 1) \<rparr>] \<rparr>,
            [FetchSegment videoId (chunkPointerRef s)
               (min (chunkPointerRef s + STREAM_CHUNK_SIZE - 1) (fileSizeRef s - 1))])"
    by (intro appendNextChunk_request) blast+
  show "snd (appendNextChunk s) =
          [FetchSegment videoId (chunkPointerRef s)
             (min (chunkPointerRef s + STREAM_CHUNK_SIZE - 1) (fileSizeRef s - 1))]"
    and "isFetchingChunkRef (fst (appendNextChunk s))"
    and "inflight (fst (appendNextChunk s)) =
            inflight s @
              [\<lparr> f_activeVideoId = videoId, f_currentVideoId = videoId,
                 f_start = chunkPointerRef s,
                 f_end = min (chunkPointerRef s + STREAM_CHUNK_SIZE - 1) (fileSizeRef s - 1) \<rparr>]"
    by (simp_all add: r)
next
  assume "f \<in> set (inflight s) \<and> f_activeVideoId f = f_currentVideoId f
      \<and> sourceBufferRef s = Some False"
  then show "chunkPointerRef (fst (step (FetchSettled f True) s)) = f_end f + 1"
    and "snd (step (FetchSettled f True) s) = [AppendBuffer]"
    using settled_advances_cursor [of f s] by blast+
next
  assume "useMediaSource s \<and> currentVideoId s = Some videoId \<and> videoId \<noteq> []
      \<and> sourceBufferRef s = Some False \<and> mediaSourceRef s = Some Open
      \<and> \<not> isFetchingChunkRef s \<and> fileSizeRef s \<noteq> 0
      \<and> fileSizeRef s \<le> chunkPointerRef s"
  then show "appendNextChunk s = (s\<lparr> mediaSourceRef := Some Ended \<rparr>, [EndOfStream])"
    by (intro appendNextChunk_at_end) blast+
next
  assume "videoId \<noteq> [] \<and> 1 \<le> fileSize \<and> chunkCount fileSize \<le> n"
  then have v: "videoId \<noteq> []" and p: "1 \<le> fileSize" and n: "chunkCount fileSize \<le> n"
    by blast+
  note pr = playback_requests [OF v p n, of dur]
  show "fetches (snd (step SourceOpen (started videoId fileSize dur))
                  @ snd (playThrough n (fst (step SourceOpen (started videoId fileSize dur)))))
          = map (chunkRequest videoId fileSize) [0..<chunkCount fileSize]"
    by (rule pr(1))
  then show "length (fetches (snd (step SourceOpen (started videoId fileSize dur))
                  @ snd (playThrough n (fst (step SourceOpen (started videoId fileSize dur))))))
          = nat \<lceil>(of_int fileSize :: rat) / of_int STREAM_CHUNK_SIZE\<rceil>"
    by (simp add: chunkCount_def)
  show "last (snd (playThrough n (fst (step SourceOpen (started videoId fileSize dur)))))
          = EndOfStream"
    by (rule pr(3))
  show "fst (playThrough n (fst (step SourceOpen (started videoId fileSize dur))))
          = finished videoId fileSize dur"
    by (rule pr(2))
next
  assume "Suc k < chunkCount fileSize"
  then show "min (int k * STREAM_CHUNK_SIZE + STREAM_CHUNK_SIZE - 1) (fileSize - 1) + 1
          = int (Suc k) * STREAM_CHUNK_SIZE"
    by (rule chunks_contiguous)
next
  assume "0 < chunkCount fileSize"
  then show "min (int (chunkCount fileSize - 1) * STREAM_CHUNK_SIZE + STREAM_CHUNK_SIZE - 1)
            (fileSize - 1) = fileSize - 1"
    by (rule last_chunk_end)
qed

lemma demo_chunkCount: "chunkCount 5000000 = 3" "chunkCount 120000000 = 58"
  by code_simp+

theorem chunk_by_chunk_witness:
  "snd (appendNextChunk
          ((fetching ''v1'' 5000000 600 1)\<lparr> isFetchingChunkRef := False, inflight := [] \<rparr>))
     = [FetchSegment ''v1'' 2097152 4194303]
   \<and> chunkPointerRef
        (fst (step (FetchSettled (demo_fetch 2097152 4194303) True) (fetching ''v1'' 5000000 600 1)))
     = 4194304
   \<and> appendNextChunk ((finished ''v1'' 5000000 600)\<lparr> mediaSourceRef := Some Open \<rparr>)
     = (finished ''v1'' 5000000 600, [EndOfStream])
   \<and> fetches (snd (step SourceOpen (started ''v1'' 5000000 600))
              @ snd (playThrough 3 (fst (step SourceOpen (started ''v1'' 5000000 600)))))
     = [FetchSegment ''v1'' 0 2097151, FetchSegment ''v1'' 2097152 4194303,
        FetchSegment ''v1'' 4194304 4999999]
   \<and> length (fetches (snd (step SourceOpen (started ''v1'' 120000000 600))
              @ snd (playThrough 58 (fst (step SourceOpen (started ''v1'' 120000000 600))))))
     = 58"
proof -
  let ?a = "(fetching ''v1'' 5000000 600 1)\<lparr> isFetchingChunkRef := False, inflight := [] \<rparr>"
  let ?b = "fetching ''v1'' 5000000 600 1"
  let ?c = "(finished ''v1'' 5000000 600)\<lparr> mediaSourceRef := Some Open \<rparr>"
  have c: "STREAM_CHUNK_SIZE = 2097152" by (simp add: STREAM_CHUNK_SIZE_def)
  have w1: "snd (appendNextChunk ?a) = [FetchSegment ''v1'' 2097152 4194303]"
    using chunk_by_chunk [where s = ?a and videoId = "''v1''"]
    by (simp add: fetching_def c)
  have w2: "chunkPointerRef (fst (step (FetchSettled (demo_fetch 2097152 4194303) True) ?b))
              = 4194304"
    using chunk_by_chunk [where s = ?b and f = "demo_fetch 2097152 4194303"]
    by (simp add: fetching_def demo_fetch_def c)
  have w3: "appendNextChunk ?c = (finished ''v1'' 5000000 600, [EndOfStream])"
    using chunk_by_chunk [where s = ?c and videoId = "''v1''"]
    by (simp add: finished_def)
  have w4: "fetches (snd (step SourceOpen (started ''v1'' 5000000 600))
              @ snd (playThrough 3 (fst (step SourceOpen (started ''v1'' 5000000 600)))))
     = [FetchSegment ''v1'' 0 2097151, FetchSegment ''v1'' 2097152 4194303,
        FetchSegment ''v1'' 4194304 4999999]"
    using chunk_by_chunk [where videoId = "''v1''" and fileSize = 5000000 and n = 3 and dur = 600]
    by (simp add: demo_chunkCount chunkRequest_def c upt_rec numeral_nat)
  have w5: "length (fetches (snd (step SourceOpen (started ''v1'' 120000000 600))
              @ snd (playThrough 58 (fst (step SourceOpen (started ''v1'' 120000000 600))))))
     = 58"
    using chunk_by_chunk [where videoId = "''v1''" and fileSize = 120000000 and n = 58 and dur = 600]
      demo_chunkCount(2)
    by (simp add: chunkCount_def)
  from w1 w2 w3 w4 w5 show ?thesis by blast
qed

end
